theory Spec2Isabelle
  imports Main
begin

section \<open>The Sphinx configuration module \<open>conf.py\<close>\<close>

text \<open>
  \<open>conf.py\<close> is a Python module that the documentation builder executes once in a
  namespace and then reads the top-level names of. Its body is ten assignment
  statements; every right-hand side is a string literal or a list display of string
  literals. The module has no import, no call, no name load and no control flow.

  The model is the module as a state transformer on the namespace it is executed in:
  an expression maps the namespace to a value or an error, a statement maps it to the
  updated namespace or an error, and a module body runs its statements in order and
  stops at the first error, as a raised exception would.
\<close>

subsection \<open>Values, errors and namespaces\<close>

datatype pyval =
    PyStr string
  | PyList "pyval list"
  | PyBool bool
  | PyInt int
  | PyNone

datatype py_error = NameError string

type_synonym namespace = "string \<rightharpoonup> pyval"

type_synonym expr = "namespace \<Rightarrow> py_error + pyval"

type_synonym stmt = "namespace \<Rightarrow> py_error + namespace"

subsection \<open>Expressions and statements\<close>

text \<open>A string literal evaluates to its string and reads nothing.\<close>

definition str_lit :: "string \<Rightarrow> expr" where
  "str_lit s ns = Inr (PyStr s)"

text \<open>
  Loading a name raises \<open>NameError\<close> when the name is unbound. The module contains no
  name load; the operation is what gives the error branch of the model its meaning.
\<close>

definition load_name :: "string \<Rightarrow> expr" where
  "load_name x ns = (case ns x of None \<Rightarrow> Inl (NameError x) | Some v \<Rightarrow> Inr v)"

text \<open>The items of a list display are evaluated left to right; the first error wins.\<close>

fun eval_items :: "expr list \<Rightarrow> namespace \<Rightarrow> py_error + pyval list" where
  "eval_items [] ns = Inr []"
| "eval_items (e # es) ns =
     (case e ns of
        Inl err \<Rightarrow> Inl err
      | Inr v \<Rightarrow> (case eval_items es ns of Inl err \<Rightarrow> Inl err | Inr vs \<Rightarrow> Inr (v # vs)))"

definition list_display :: "expr list \<Rightarrow> expr" where
  "list_display es ns =
     (case eval_items es ns of Inl err \<Rightarrow> Inl err | Inr vs \<Rightarrow> Inr (PyList vs))"

text \<open>\<open>x = e\<close> at module level: evaluate \<open>e\<close>, then bind \<open>x\<close> in the namespace.\<close>

definition assign :: "string \<Rightarrow> expr \<Rightarrow> stmt" where
  "assign x e ns = (case e ns of Inl err \<Rightarrow> Inl err | Inr v \<Rightarrow> Inr (ns(x \<mapsto> v)))"

fun exec :: "stmt list \<Rightarrow> stmt" where
  "exec [] ns = Inr ns"
| "exec (s # ss) ns = (case s ns of Inl err \<Rightarrow> Inl err | Inr ns' \<Rightarrow> exec ss ns')"

subsection \<open>The module\<close>

text \<open>The statements of \<open>conf.py\<close>, in the order of the file (lines 9 to 36).\<close>

definition conf_py :: "stmt list" where
  "conf_py =
    [assign ''project'' (str_lit ''Deep Learning with JAX''),
     assign ''copyright'' (str_lit ''2025, Victor An''),
     assign ''author'' (str_lit ''Victor An''),
     assign ''extensions''
       (list_display
          [str_lit ''sphinx.ext.autodoc'',
           str_lit ''sphinx.ext.viewcode'',
           str_lit ''nbsphinx'']),
     assign ''templates_path'' (list_display [str_lit ''_templates'']),
     assign ''exclude_patterns''
       (list_display [str_lit ''_build'', str_lit ''Thumbs.db'', str_lit ''.DS_Store'']),
     assign ''language'' (str_lit ''en''),
     assign ''html_theme'' (str_lit ''sphinx_rtd_theme''),
     assign ''html_static_path'' (list_display [str_lit ''_static'']),
     assign ''nbsphinx_execute'' (str_lit ''auto'')]"

text \<open>The names the module assigns, in the order of their assignments.\<close>

definition declared_keys :: "string list" where
  "declared_keys =
    [''project'', ''copyright'', ''author'', ''extensions'', ''templates_path'',
     ''exclude_patterns'', ''language'', ''html_theme'', ''html_static_path'',
     ''nbsphinx_execute'']"

subsection \<open>Kinds of values\<close>

fun is_str :: "pyval \<Rightarrow> bool" where
  "is_str (PyStr s) = True"
| "is_str _ = False"

fun is_str_list :: "pyval \<Rightarrow> bool" where
  "is_str_list (PyList vs) = list_all is_str vs"
| "is_str_list _ = False"

fun is_list :: "pyval \<Rightarrow> bool" where
  "is_list (PyList vs) = True"
| "is_list _ = False"

text \<open>
  Modelled from the spec: the values the builder's notebook extension accepts for
  \<open>nbsphinx_execute\<close>, which the interface table gives as the enumeration
  \<open>{auto, always, never}\<close>. The extension is not part of the repository.
\<close>

definition execute_modes :: "pyval list" where
  "execute_modes = [PyStr ''auto'', PyStr ''always'', PyStr ''never'']"

definition is_execute_mode :: "pyval \<Rightarrow> bool" where
  "is_execute_mode v = (v \<in> set execute_modes)"

section \<open>Executing the module\<close>

text \<open>
  Executed in any namespace, the module returns that namespace with its ten names
  bound, later bindings over earlier ones.
\<close>

lemma exec_conf_py:
  "exec conf_py ns =
     Inr (ns(''project'' \<mapsto> PyStr ''Deep Learning with JAX'',
             ''copyright'' \<mapsto> PyStr ''2025, Victor An'',
             ''author'' \<mapsto> PyStr ''Victor An'',
             ''extensions'' \<mapsto>
               PyList [PyStr ''sphinx.ext.autodoc'', PyStr ''sphinx.ext.viewcode'',
                       PyStr ''nbsphinx''],
             ''templates_path'' \<mapsto> PyList [PyStr ''_templates''],
             ''exclude_patterns'' \<mapsto>
               PyList [PyStr ''_build'', PyStr ''Thumbs.db'', PyStr ''.DS_Store''],
             ''language'' \<mapsto> PyStr ''en'',
             ''html_theme'' \<mapsto> PyStr ''sphinx_rtd_theme'',
             ''html_static_path'' \<mapsto> PyList [PyStr ''_static''],
             ''nbsphinx_execute'' \<mapsto> PyStr ''auto''))"
  by (simp add: conf_py_def assign_def list_display_def str_lit_def)

text \<open>
  The error branch of the model is real: a module that loads an unbound name stops
  with \<open>NameError\<close>, and the statements after it do not run.
\<close>

lemma exec_unbound_name:
  "exec [assign ''a'' (load_name ''b''), assign ''c'' (str_lit ''d'')] Map.empty
     = Inl (NameError ''b'')"
  by (simp add: assign_def load_name_def)

text \<open>
  The bindings the module produces in the empty namespace are those of the declared
  keys, and executing it in any namespace adds exactly these bindings.
\<close>

lemma dom_exec_conf_py_empty:
  "exec conf_py Map.empty = Inr m0 \<Longrightarrow> dom m0 = set declared_keys"
proof -
  assume "exec conf_py Map.empty = Inr m0"
  then have "m0 = projr (exec conf_py Map.empty)"
    by simp
  then have "dom m0 = set (rev declared_keys)"
    by (simp add: exec_conf_py declared_keys_def)
  then show ?thesis by simp
qed

lemma exec_conf_py_map_add:
  "exec conf_py Map.empty = Inr m0 \<Longrightarrow> exec conf_py ns = Inr (ns ++ m0)"
proof -
  assume "exec conf_py Map.empty = Inr m0"
  then have "m0 = projr (exec conf_py Map.empty)"
    by simp
  then show ?thesis
    by (simp add: exec_conf_py)
qed

section \<open>Properties of the configuration\<close>

subsection \<open>Types of the bound values\<close>

text \<open>
  C1. In whatever namespace the module is executed, execution succeeds and every
  declared key (\<open>project\<close>, \<open>copyright\<close>, \<open>author\<close>, \<open>extensions\<close>, \<open>templates_path\<close>,
  \<open>exclude_patterns\<close>, \<open>language\<close>, \<open>html_theme\<close>, \<open>html_static_path\<close>,
  \<open>nbsphinx_execute\<close>) is bound to a value that is a string, a list of strings or one
  of the values of the execution-mode enumeration; no declared key is bound to a value
  of any other kind.
\<close>

theorem declared_keys_typed:
  "\<exists>m. exec conf_py ns = Inr m \<and>
     (\<forall>k \<in> set declared_keys.
        \<exists>v. m k = Some v \<and> (is_str v \<or> is_str_list v \<or> is_execute_mode v))"
  by (simp add: exec_conf_py declared_keys_def)

theorem declared_keys_typed_witness:
  "\<exists>m. exec conf_py Map.empty = Inr m \<and> ''extensions'' \<in> set declared_keys \<and>
     (\<exists>v. m ''extensions'' = Some v \<and> (is_str v \<or> is_str_list v \<or> is_execute_mode v))"
proof -
  have k: "''extensions'' \<in> set declared_keys"
    by (simp add: declared_keys_def)
  from declared_keys_typed [of Map.empty] obtain m where
    "exec conf_py Map.empty = Inr m \<and>
     (\<forall>k \<in> set declared_keys.
        \<exists>v. m k = Some v \<and> (is_str v \<or> is_str_list v \<or> is_execute_mode v))" ..
  then have m: "exec conf_py Map.empty = Inr m"
    and typed: "\<forall>k \<in> set declared_keys.
        \<exists>v. m k = Some v \<and> (is_str v \<or> is_str_list v \<or> is_execute_mode v)"
    by simp_all
  from typed k
  have "\<exists>v. m ''extensions'' = Some v \<and> (is_str v \<or> is_str_list v \<or> is_execute_mode v)"
    by (rule bspec)
  with m k show ?thesis
    by (intro exI [of _ m] conjI)
qed

text \<open>
  C2. The value bound to \<open>nbsphinx_execute\<close> is the string \<open>auto\<close>, which is a member of
  the enumeration \<open>{auto, always, never}\<close>; it is not a boolean.
\<close>

theorem nbsphinx_execute_auto:
  "\<exists>m v. exec conf_py ns = Inr m \<and> m ''nbsphinx_execute'' = Some v \<and>
     v = PyStr ''auto'' \<and> is_execute_mode v \<and> (\<forall>b. v \<noteq> PyBool b)"
  by (simp add: exec_conf_py is_execute_mode_def execute_modes_def)

text \<open>
  C3. The value bound to \<open>extensions\<close> is the list of the three strings
  \<open>sphinx.ext.autodoc\<close>, \<open>sphinx.ext.viewcode\<close>, \<open>nbsphinx\<close>, in the order in which the
  file writes them.
\<close>

theorem extensions_in_order:
  "\<exists>m. exec conf_py ns = Inr m \<and>
     m ''extensions'' =
       Some (PyList [PyStr ''sphinx.ext.autodoc'', PyStr ''sphinx.ext.viewcode'',
                     PyStr ''nbsphinx''])"
  by (simp add: exec_conf_py)

subsection \<open>Errors, determinism and frame\<close>

text \<open>
  C4. Executing the module never ends in the error branch: in every namespace it
  returns a namespace, and no error is its result.
\<close>

theorem exec_conf_py_ok:
  "(\<exists>m. exec conf_py ns = Inr m) \<and> (\<forall>e. exec conf_py ns \<noteq> Inl e)"
  by (simp add: exec_conf_py)

text \<open>
  C5. Execution is a function of the starting namespace, so it is deterministic, and
  it does not depend on that input: executed in any two namespaces, the module
  succeeds in both and binds every declared key to the same value in both.
\<close>

theorem exec_conf_py_input_independent:
  "\<exists>m m'. exec conf_py ns = Inr m \<and> exec conf_py ns' = Inr m' \<and>
     (\<forall>k \<in> set declared_keys. m k = m' k)"
  by (simp add: exec_conf_py declared_keys_def)

theorem exec_conf_py_input_independent_witness:
  "\<exists>m m'. exec conf_py Map.empty = Inr m \<and>
     exec conf_py [''project'' \<mapsto> PyInt 7, ''tags'' \<mapsto> PyNone] = Inr m' \<and>
     ''project'' \<in> set declared_keys \<and> m ''project'' = m' ''project''"
proof -
  let ?ns = "[''project'' \<mapsto> PyInt 7, ''tags'' \<mapsto> PyNone]"
  have k: "''project'' \<in> set declared_keys"
    by (simp add: declared_keys_def)
  from exec_conf_py_input_independent [of Map.empty ?ns] obtain m where
    "\<exists>m'. exec conf_py Map.empty = Inr m \<and> exec conf_py ?ns = Inr m' \<and>
       (\<forall>k \<in> set declared_keys. m k = m' k)" ..
  then obtain m' where
    "exec conf_py Map.empty = Inr m \<and> exec conf_py ?ns = Inr m' \<and>
       (\<forall>k \<in> set declared_keys. m k = m' k)" ..
  then have m: "exec conf_py Map.empty = Inr m"
    and m': "exec conf_py ?ns = Inr m'"
    and same: "\<forall>k \<in> set declared_keys. m k = m' k"
    by simp_all
  from same k have "m ''project'' = m' ''project''"
    by (rule bspec)
  with m m' k show ?thesis
    by (intro exI [of _ m] exI [of _ m'] conjI)
qed

text \<open>
  C6. The only effect of executing the module is its own top-level bindings. The
  resulting namespace is the starting one overridden by the bindings the module
  produces in the empty namespace, whose names are exactly the declared keys: the
  bindings do not depend on the starting namespace, and every other name keeps the
  value (or the absence of a value) it had before.
\<close>

theorem exec_conf_py_frame:
  "\<exists>m0. exec conf_py Map.empty = Inr m0 \<and> dom m0 = set declared_keys \<and>
     exec conf_py ns = Inr (ns ++ m0) \<and>
     (\<forall>k. k \<notin> set declared_keys \<longrightarrow> (ns ++ m0) k = ns k)"
proof -
  obtain m0 where m0: "exec conf_py Map.empty = Inr m0"
    by (simp add: exec_conf_py)
  have d: "dom m0 = set declared_keys"
    using m0 by (rule dom_exec_conf_py_empty)
  have e: "exec conf_py ns = Inr (ns ++ m0)"
    using m0 by (rule exec_conf_py_map_add)
  have "\<forall>k. k \<notin> set declared_keys \<longrightarrow> (ns ++ m0) k = ns k"
    using d by (simp add: map_add_dom_app_simps)
  with m0 d e show ?thesis
    by (intro exI [of _ m0] conjI)
qed

theorem exec_conf_py_frame_witness:
  "\<exists>m0. exec conf_py Map.empty = Inr m0 \<and>
     exec conf_py [''project'' \<mapsto> PyInt 7, ''tags'' \<mapsto> PyNone]
       = Inr ([''project'' \<mapsto> PyInt 7, ''tags'' \<mapsto> PyNone] ++ m0) \<and>
     ''tags'' \<notin> set declared_keys \<and>
     ([''project'' \<mapsto> PyInt 7, ''tags'' \<mapsto> PyNone] ++ m0) ''tags'' = Some PyNone"
proof -
  let ?ns = "[''project'' \<mapsto> PyInt 7, ''tags'' \<mapsto> PyNone]"
  have k: "''tags'' \<notin> set declared_keys"
    by (simp add: declared_keys_def)
  from exec_conf_py_frame [of ?ns] obtain m0 where
    "exec conf_py Map.empty = Inr m0 \<and> dom m0 = set declared_keys \<and>
     exec conf_py ?ns = Inr (?ns ++ m0) \<and>
     (\<forall>k. k \<notin> set declared_keys \<longrightarrow> (?ns ++ m0) k = ?ns k)" ..
  then have m0: "exec conf_py Map.empty = Inr m0"
    and e: "exec conf_py ?ns = Inr (?ns ++ m0)"
    and f: "\<forall>k. k \<notin> set declared_keys \<longrightarrow> (?ns ++ m0) k = ?ns k"
    by simp_all
  from f have "''tags'' \<notin> set declared_keys \<longrightarrow> (?ns ++ m0) ''tags'' = ?ns ''tags''"
    by (rule spec)
  with k have "(?ns ++ m0) ''tags'' = Some PyNone"
    by simp
  with m0 e k show ?thesis
    by (intro exI [of _ m0] conjI)
qed


subsection \<open>Scalar settings\<close>

text \<open>
  C7. The values bound to \<open>language\<close> and \<open>html_theme\<close> are each one non-empty string,
  \<open>en\<close> and \<open>sphinx_rtd_theme\<close>; neither is a list and neither is a value of the
  execution-mode enumeration.
\<close>

theorem language_and_theme_scalar:
  "\<exists>m l t. exec conf_py ns = Inr m \<and>
     m ''language'' = Some (PyStr l) \<and> m ''html_theme'' = Some (PyStr t) \<and>
     l = ''en'' \<and> t = ''sphinx_rtd_theme'' \<and> l \<noteq> [] \<and> t \<noteq> [] \<and>
     \<not> is_list (PyStr l) \<and> \<not> is_list (PyStr t) \<and>
     \<not> is_execute_mode (PyStr l) \<and> \<not> is_execute_mode (PyStr t)"
  by (simp add: exec_conf_py is_execute_mode_def execute_modes_def)

subsection \<open>Invariants across settings\<close>

text \<open>
  C8. The extension that \<open>nbsphinx_execute\<close> configures is enabled: execution binds
  \<open>nbsphinx_execute\<close>, and the identifier \<open>nbsphinx\<close> is an element of the list bound to
  \<open>extensions\<close>.
\<close>

theorem nbsphinx_enabled:
  "\<exists>m xs. exec conf_py ns = Inr m \<and> m ''nbsphinx_execute'' \<noteq> None \<and>
     m ''extensions'' = Some (PyList xs) \<and> PyStr ''nbsphinx'' \<in> set xs"
  by (simp add: exec_conf_py)

text \<open>
  C9. The list-valued settings among the declared keys are \<open>extensions\<close>,
  \<open>templates_path\<close>, \<open>exclude_patterns\<close> and \<open>html_static_path\<close>, and every list bound
  to a declared key is non-empty and has pairwise distinct elements.
\<close>

theorem list_settings_nonempty_distinct:
  "\<exists>m. exec conf_py ns = Inr m \<and>
     filter (\<lambda>k. case m k of None \<Rightarrow> False | Some v \<Rightarrow> is_list v) declared_keys =
       [''extensions'', ''templates_path'', ''exclude_patterns'', ''html_static_path''] \<and>
     (\<forall>k \<in> set declared_keys. \<forall>xs. m k = Some (PyList xs) \<longrightarrow> xs \<noteq> [] \<and> distinct xs)"
  by (simp add: exec_conf_py declared_keys_def)

theorem list_settings_nonempty_distinct_witness:
  "\<exists>m. exec conf_py Map.empty = Inr m \<and> ''exclude_patterns'' \<in> set declared_keys \<and>
     m ''exclude_patterns'' =
       Some (PyList [PyStr ''_build'', PyStr ''Thumbs.db'', PyStr ''.DS_Store'']) \<and>
     [PyStr ''_build'', PyStr ''Thumbs.db'', PyStr ''.DS_Store''] \<noteq> [] \<and>
     distinct [PyStr ''_build'', PyStr ''Thumbs.db'', PyStr ''.DS_Store'']"
proof -
  let ?xs = "[PyStr ''_build'', PyStr ''Thumbs.db'', PyStr ''.DS_Store'']"
  have k: "''exclude_patterns'' \<in> set declared_keys"
    by (simp add: declared_keys_def)
  from list_settings_nonempty_distinct [of Map.empty] obtain m where
    "exec conf_py Map.empty = Inr m \<and>
     filter (\<lambda>k. case m k of None \<Rightarrow> False | Some v \<Rightarrow> is_list v) declared_keys =
       [''extensions'', ''templates_path'', ''exclude_patterns'', ''html_static_path''] \<and>
     (\<forall>k \<in> set declared_keys. \<forall>xs. m k = Some (PyList xs) \<longrightarrow> xs \<noteq> [] \<and> distinct xs)" ..
  then have m: "exec conf_py Map.empty = Inr m"
    and all: "\<forall>k \<in> set declared_keys. \<forall>xs. m k = Some (PyList xs) \<longrightarrow> xs \<noteq> [] \<and> distinct xs"
    by simp_all
  from m have "m = projr (exec conf_py Map.empty)"
    by simp
  then have b: "m ''exclude_patterns'' = Some (PyList ?xs)"
    by (simp add: exec_conf_py)
  from all k have "\<forall>xs. m ''exclude_patterns'' = Some (PyList xs) \<longrightarrow> xs \<noteq> [] \<and> distinct xs"
    by (rule bspec)
  then have "m ''exclude_patterns'' = Some (PyList ?xs) \<longrightarrow> ?xs \<noteq> [] \<and> distinct ?xs"
    by (rule spec)
  with b have "?xs \<noteq> [] \<and> distinct ?xs"
    by (rule rev_mp)
  then have n: "?xs \<noteq> []" and d: "distinct ?xs"
    by (rule conjunct1, rule conjunct2)
  from m k b n d show ?thesis
    by (intro exI [of _ m] conjI)
qed

text \<open>
  C10. The directories the build reads from are not among the excluded patterns: the
  elements of \<open>templates_path\<close> (\<open>_templates\<close>) and of \<open>html_static_path\<close> (\<open>_static\<close>)
  do not occur among the elements of \<open>exclude_patterns\<close> (\<open>_build\<close>, \<open>Thumbs.db\<close>,
  \<open>.DS_Store\<close>).
\<close>

theorem input_paths_not_excluded:
  "\<exists>m tp sp ep. exec conf_py ns = Inr m \<and>
     m ''templates_path'' = Some (PyList tp) \<and>
     m ''html_static_path'' = Some (PyList sp) \<and>
     m ''exclude_patterns'' = Some (PyList ep) \<and>
     set tp = {PyStr ''_templates''} \<and> set sp = {PyStr ''_static''} \<and>
     set ep = {PyStr ''_build'', PyStr ''Thumbs.db'', PyStr ''.DS_Store''} \<and>
     set tp \<inter> set ep = {} \<and> set sp \<inter> set ep = {}"
  by (simp add: exec_conf_py)

end
